theory Spec2Isabelle
  imports
    Main
    "HOL-Library.Word"
    "HOL-Library.Signed_Division"
    "HOL-Library.Char_ord"
    "HOL-Library.List_Lexorder"
begin

section \<open>The replicant API server: handlers, middleware, lifecycle\<close>

text \<open>
  A shallow embedding of \<^verbatim>\<open>server/server.go\<close>. A handler of the source,
  \<^verbatim>\<open>func(w http.ResponseWriter, r *http.Request, p Params)\<close>, has no result and acts
  on the world through its response writer, the log and whatever else it reaches; here it is
  a function from the world to an outcome and a new world. A Go panic is the outcome
  \<open>Panicked v\<close>, with the value handed to \<^verbatim>\<open>panic\<close>.
\<close>

subsection \<open>Values of the language and of the libraries\<close>

text \<open>
  Go's \<^verbatim>\<open>int\<close> on a 64-bit platform and \<^verbatim>\<open>int64\<close> (\<^verbatim>\<open>time.Duration\<close>) are
  64-bit words; \<open>sint\<close> reads them as signed.
\<close>

type_synonym go_int = "64 word"

text \<open>
  A value of type \<^verbatim>\<open>interface{}\<close>, as \<^verbatim>\<open>panic\<close> takes and \<^verbatim>\<open>recover\<close>
  returns, by the shapes that the code below tells apart:
  \<^item> nil;
  \<^item> a string;
  \<^item> an error value that is a struct with a message and no exported field (what
    \<^verbatim>\<open>errors.New\<close> and \<^verbatim>\<open>fmt.Errorf\<close> build);
  \<^item> a runtime error of string kind (a nil dereference, a division by zero), whose
    \<^verbatim>\<open>Error()\<close> puts \<^verbatim>\<open>runtime error: \<close> before its text;
  \<^item> a value that \<^verbatim>\<open>json.Marshal\<close> refuses (a channel, a function, a NaN), kept
    with the text that \<^verbatim>\<open>%s\<close> prints for it.
\<close>

datatype go_value =
    GoNil
  | Str string
  | Err string
  | RuntimeErr string
  | Unencodable string

datatype outcome = Returned | Panicked go_value

text \<open>
  \<^verbatim>\<open>recover()\<close> in a deferred call: the value of the panic in flight, nil when the
  function is returning normally. The toolchains this module builds with keep
  \<^verbatim>\<open>panic(nil)\<close> as a panic whose recovered value is nil.
\<close>

fun recover :: "outcome \<Rightarrow> go_value" where
  "recover Returned = GoNil"
| "recover (Panicked v) = v"

text \<open>\<^verbatim>\<open>fmt.Sprintf("%s", v)\<close>: a string as it is, an error by its \<^verbatim>\<open>Error()\<close> text.\<close>

fun Sprintf_s :: "go_value \<Rightarrow> string" where
  "Sprintf_s GoNil = ''%!s(<nil>)''"
| "Sprintf_s (Str s) = s"
| "Sprintf_s (Err m) = m"
| "Sprintf_s (RuntimeErr m) = ''runtime error: '' @ m"
| "Sprintf_s (Unencodable d) = d"

text \<open>
  JSON values. \<^verbatim>\<open>json.Marshal\<close> goes by the kind of a value and not by its
  \<^verbatim>\<open>Error()\<close> method: a string, and a runtime error of string kind, become a JSON
  string of the bare text; a struct is written by its exported fields (an error value of
  the kind above has none: the empty object); nil is null; some values have no encoding.
\<close>

datatype json = JNull | JString string | JObject "(string \<times> json) list"

fun json_of :: "go_value \<Rightarrow> json option" where
  "json_of GoNil = Some JNull"
| "json_of (Str s) = Some (JString s)"
| "json_of (Err m) = Some (JObject [])"
| "json_of (RuntimeErr m) = Some (JString m)"
| "json_of (Unencodable d) = None"

text \<open>
  A byte slice handed to \<^verbatim>\<open>Write\<close>: plain text (the nil slice is the empty
  text), or the encoding \<^verbatim>\<open>json.Marshal\<close> produced for a JSON value (the encoder's
  escaping is the library's and is not unfolded).
\<close>

datatype bytes = Bytes string | Marshalled json

datatype error =
    ErrServerClosed
  | DeadlineExceeded
  | ErrOther string
  | Wrapped string "error option"

text \<open>
  \<^verbatim>\<open>json.Marshal\<close> of a \<^verbatim>\<open>map[string]interface{}\<close>: an object with the keys
  sorted, or, when a member has no encoding, a nil slice and an error.
\<close>

fun json_members :: "(string \<times> go_value) list \<Rightarrow> (string \<times> json) list option" where
  "json_members [] = Some []"
| "json_members ((k, v) # m) =
     (case json_of v of
        None \<Rightarrow> None
      | Some j \<Rightarrow> (case json_members m of None \<Rightarrow> None | Some js \<Rightarrow> Some ((k, j) # js)))"

definition json_Marshal :: "(string \<times> go_value) list \<Rightarrow> bytes \<times> error option" where
  "json_Marshal m =
     (case json_members (sort_key fst m) of
        None \<Rightarrow> (Bytes [], Some (ErrOther ''json: unsupported value''))
      | Some js \<Rightarrow> (Marshalled (JObject js), None))"

text \<open>\<^verbatim>\<open>fmt.Errorf(prefix + "%w", err)\<close>: never nil, whatever \<open>err\<close> is.\<close>

definition fmt_Errorf_w :: "string \<Rightarrow> error option \<Rightarrow> error option" where
  "fmt_Errorf_w prefix err = Some (Wrapped prefix err)"

subsection \<open>The log\<close>

datatype level = InfoLevel | ErrorLevel

datatype field_value = FString string | FInt int

record log_entry =
  level :: level
  message :: string
  entry_fields :: "(string \<times> field_value) list"

record statusWriter =
  status :: go_int
  length_w :: go_int

datatype sink_call =
    CallHeaderSet string string
  | CallWriteHeader go_int
  | CallWrite bytes

text \<open>
  The world a request runs in: the log, the monotonic clock (nanoseconds), the text of the
  running goroutine's stack, the \<^verbatim>\<open>statusWriter\<close> objects allocated so far
  (\<^verbatim>\<open>&statusWriter{...}\<close> takes the next address), and the transport's own response
  writer: the calls it has received and the byte count and error it will answer to its
  k-th \<^verbatim>\<open>Write\<close>.
\<close>

record world =
  logs :: "log_entry list"
  clock :: int
  goroutine :: string
  frames :: string
  sws :: "nat \<Rightarrow> statusWriter"
  sw_next :: nat
  sink :: "sink_call list"
  sink_reply :: "nat \<Rightarrow> go_int \<times> error option"

text \<open>
  Modelled from the spec: the logging package (\<^verbatim>\<open>replicant/log\<close>), whose source is
  not part of the files at hand. Its contract is
  \<^verbatim>\<open>emit(level, message, structured key-value fields...)\<close>, write-only: an entry is
  opened at a level with a message, fields are added in order, and \<^verbatim>\<open>Log()\<close> emits it.
\<close>

definition log_Info :: "string \<Rightarrow> log_entry" where
  "log_Info msg = \<lparr>level = InfoLevel, message = msg, entry_fields = []\<rparr>"

definition log_Error :: "string \<Rightarrow> log_entry" where
  "log_Error msg = \<lparr>level = ErrorLevel, message = msg, entry_fields = []\<rparr>"

definition String_field :: "string \<Rightarrow> string \<Rightarrow> log_entry \<Rightarrow> log_entry" where
  "String_field k v e = e\<lparr>entry_fields := entry_fields e @ [(k, FString v)]\<rparr>"

definition Int_field :: "string \<Rightarrow> int \<Rightarrow> log_entry \<Rightarrow> log_entry" where
  "Int_field k v e = e\<lparr>entry_fields := entry_fields e @ [(k, FInt v)]\<rparr>"

definition Log :: "log_entry \<Rightarrow> world \<Rightarrow> world" where
  "Log e s = s\<lparr>logs := logs s @ [e]\<rparr>"

text \<open>
  \<^verbatim>\<open>debug.Stack()\<close>: the runtime's rendering of the calling goroutine's stack, a
  header line naming the goroutine followed by its frames.
\<close>

definition debug_Stack :: "world \<Rightarrow> string" where
  "debug_Stack s = ''goroutine '' @ goroutine s @ '' [running]:'' @ [CHR 0x0A] @ frames s"

text \<open>
  \<^verbatim>\<open>time.Now()\<close> carries the monotonic reading; \<^verbatim>\<open>time.Since(t)\<close> subtracts on
  it; \<^verbatim>\<open>Duration.Milliseconds()\<close> divides the nanoseconds by a million, truncating
  toward zero as Go's integer division does.
\<close>

definition time_Now :: "world \<Rightarrow> int" where
  "time_Now s = clock s"

definition time_Since :: "int \<Rightarrow> world \<Rightarrow> int" where
  "time_Since t s = clock s - t"

definition Milliseconds :: "int \<Rightarrow> int" where
  "Milliseconds d = d sdiv 1000000"

subsection \<open>Requests, response writers, handlers\<close>

text \<open>
  Of \<^verbatim>\<open>*http.Request\<close>, what the server reads: the method, \<^verbatim>\<open>r.URL.String()\<close>,
  the remote address, and what \<^verbatim>\<open>r.BasicAuth()\<close> finds in the Authorization header
  (\<open>None\<close> when there is no well-formed basic-auth header).
\<close>

record request =
  Method :: string
  URL :: string
  RemoteAddr :: string
  Authorization :: "(string \<times> string) option"

definition r_BasicAuth :: "request \<Rightarrow> string \<times> string \<times> bool" where
  "r_BasicAuth r =
     (case Authorization r of None \<Rightarrow> ([], [], False) | Some (u, p) \<Rightarrow> (u, p, True))"

text \<open>
  The interface \<^verbatim>\<open>http.ResponseWriter\<close>: an object is the record of its methods,
  each acting on the world. \<^verbatim>\<open>w.Header().Set(k, v)\<close> is one method here.
\<close>

record writer =
  Header_Set :: "string \<Rightarrow> string \<Rightarrow> world \<Rightarrow> world"
  WriteHeader :: "go_int \<Rightarrow> world \<Rightarrow> world"
  Write :: "bytes \<Rightarrow> world \<Rightarrow> (go_int \<times> error option) \<times> world"

type_synonym Params = "(string \<times> string) list"

type_synonym Handler = "writer \<Rightarrow> request \<Rightarrow> Params \<Rightarrow> world \<Rightarrow> outcome \<times> world"

text \<open>The transport's response writer: it records each call and answers as scripted.\<close>

fun is_write :: "sink_call \<Rightarrow> bool" where
  "is_write (CallWrite b) = True"
| "is_write c = False"

definition transport_writer :: writer where
  "transport_writer =
     \<lparr>Header_Set = (\<lambda>k v s. s\<lparr>sink := sink s @ [CallHeaderSet k v]\<rparr>),
      WriteHeader = (\<lambda>code s. s\<lparr>sink := sink s @ [CallWriteHeader code]\<rparr>),
      Write = (\<lambda>b s. (sink_reply s (length (filter is_write (sink s))),
                       s\<lparr>sink := sink s @ [CallWrite b]\<rparr>))\<rparr>"

subsection \<open>statusWriter\<close>

text \<open>
  \<^verbatim>\<open>statusWriter\<close> embeds a \<^verbatim>\<open>ResponseWriter\<close>, which is set once at allocation
  and never reassigned, and keeps \<open>status\<close> and \<open>length\<close> in the object at address
  \<open>a\<close>. \<^verbatim>\<open>Header\<close> is promoted from the embedded writer.
\<close>

definition sw_WriteHeader :: "nat \<Rightarrow> writer \<Rightarrow> go_int \<Rightarrow> world \<Rightarrow> world" where
  "sw_WriteHeader a w code s =
     WriteHeader w code (s\<lparr>sws := (sws s)(a := (sws s a)\<lparr>status := code\<rparr>)\<rparr>)"

definition sw_Write :: "nat \<Rightarrow> writer \<Rightarrow> bytes \<Rightarrow> world \<Rightarrow> (go_int \<times> error option) \<times> world" where
  "sw_Write a w b s =
     (let s1 = (if status (sws s a) = 0
                then s\<lparr>sws := (sws s)(a := (sws s a)\<lparr>status := 200\<rparr>)\<rparr>
                else s);
          ((n, err), s2) = Write w b s1;
          s3 = s2\<lparr>sws := (sws s2)(a := (sws s2 a)\<lparr>length_w := length_w (sws s2 a) + n\<rparr>)\<rparr>
      in ((n, err), s3))"

definition statusWriter_writer :: "nat \<Rightarrow> writer \<Rightarrow> writer" where
  "statusWriter_writer a w =
     \<lparr>Header_Set = Header_Set w,
      WriteHeader = sw_WriteHeader a w,
      Write = sw_Write a w\<rparr>"

text \<open>\<^verbatim>\<open>&statusWriter{ResponseWriter: w}\<close>: a fresh object, both counters zero.\<close>

definition new_statusWriter :: "world \<Rightarrow> nat \<times> world" where
  "new_statusWriter s =
     (sw_next s,
      s\<lparr>sws := (sws s)(sw_next s := \<lparr>status = 0, length_w = 0\<rparr>), sw_next := Suc (sw_next s)\<rparr>)"

subsection \<open>Middleware\<close>

definition StatusInternalServerError :: go_int where
  "StatusInternalServerError = 500"

definition StatusUnauthorized :: go_int where
  "StatusUnauthorized = 401"

definition http_StatusText :: "go_int \<Rightarrow> string" where
  "http_StatusText code =
     (if code = 200 then ''OK''
      else if code = 401 then ''Unauthorized''
      else if code = 403 then ''Forbidden''
      else if code = 404 then ''Not Found''
      else if code = 500 then ''Internal Server Error''
      else [])"

text \<open>
  \<^verbatim>\<open>http.Error(w, msg, code)\<close>: two headers, the status, then the message and a
  newline.
\<close>

definition http_Error :: "writer \<Rightarrow> string \<Rightarrow> go_int \<Rightarrow> world \<Rightarrow> world" where
  "http_Error w msg code s =
     (let s1 = Header_Set w ''Content-Type'' ''text/plain; charset=utf-8'' s;
          s2 = Header_Set w ''X-Content-Type-Options'' ''nosniff'' s1;
          s3 = WriteHeader w code s2;
          (res, s4) = Write w (Bytes (msg @ [CHR 0x0A])) s3
      in s4)"

text \<open>
  \<^verbatim>\<open>recovery\<close>. The deferred closure runs when \<open>h\<close> is done, however it ended:
  \<open>out\<close> is how it ended and \<open>s1\<close> the world it left. \<^verbatim>\<open>recover()\<close> stops a
  panic in flight, so the wrapper returns normally either way. The error that
  \<^verbatim>\<open>json.Marshal\<close> may return is assigned to the blank identifier and never
  read: the body is written whatever it is.
\<close>

definition recovery_deferred :: "writer \<Rightarrow> outcome \<Rightarrow> world \<Rightarrow> world" where
  "recovery_deferred w out s1 =
     (let err = recover out
      in if err \<noteq> GoNil then
           let s2 = Log (String_field ''stack'' (debug_Stack s1)
                          (String_field ''error'' (Sprintf_s err)
                            (log_Error ''recovered from panic''))) s1;
               (jsonBody, marshal_err) =
                 json_Marshal
                   [(''message'', Str ''There was an internal server error''),
                    (''error'', err)];
               s3 = Header_Set w ''Content-Type'' ''application/json'' s2;
               s4 = WriteHeader w StatusInternalServerError s3;
               (res, s5) = Write w jsonBody s4
           in s5
         else s1)"

definition recovery :: "Handler \<Rightarrow> Handler" where
  "recovery h = (\<lambda>w r p s.
     let (out, s1) = h w r p s
     in (Returned, recovery_deferred w out s1))"

text \<open>
  \<^verbatim>\<open>logger\<close>. The entry it writes when \<open>h\<close> has returned, from the request, the
  status writer's two fields and the elapsed milliseconds; \<^verbatim>\<open>int64(...)\<close> reads a
  field as a signed number. Nothing is deferred, so a panic of \<open>h\<close> passes through and
  the entry is not written.
\<close>

definition api_request_entry :: "request \<Rightarrow> statusWriter \<Rightarrow> int \<Rightarrow> log_entry" where
  "api_request_entry r sw duration_ms =
     Int_field ''duration_ms'' duration_ms
       (Int_field ''content_length'' (sint (length_w sw))
         (Int_field ''status'' (sint (status sw))
           (String_field ''requester'' (RemoteAddr r)
             (String_field ''uri'' (URL r)
               (String_field ''method'' (Method r)
                 (log_Info ''api request''))))))"

definition logger :: "Handler \<Rightarrow> Handler" where
  "logger h = (\<lambda>w r p s.
     let start = time_Now s;
         (a, s0) = new_statusWriter s;
         sw = statusWriter_writer a w;
         (out, s1) = h sw r p s0
     in case out of
          Panicked v \<Rightarrow> (Panicked v, s1)
        | Returned \<Rightarrow>
            (Returned,
             Log (api_request_entry r (sws s1 a) (Milliseconds (time_Since start s1))) s1))"

text \<open>
  \<^verbatim>\<open>basicAuth\<close>: the three results of \<^verbatim>\<open>r.BasicAuth()\<close> are bound with
  \<^verbatim>\<open>:=\<close> to \<open>user\<close>, \<open>password\<close> and \<open>hasAuth\<close> inside the closure, where the
  first two hide the parameters of the same names.
\<close>

definition basicAuth :: "Handler \<Rightarrow> string \<Rightarrow> string \<Rightarrow> Handler" where
  "basicAuth h user password = (\<lambda>w r ps s.
     let (user, password, hasAuth) = r_BasicAuth r
     in if hasAuth \<and> user = user \<and> password = password
        then h w r ps s
        else (Returned,
              http_Error w (http_StatusText StatusUnauthorized) StatusUnauthorized s))"

subsection \<open>The server\<close>

record Config =
  Username :: string
  Password :: string
  ListenAddress :: string
  WriteTimeout :: go_int
  ReadTimeout :: go_int
  ReadHeaderTimeout :: go_int

text \<open>
  Of \<^verbatim>\<open>http.Server\<close>, the fields the server sets. \<open>Handler\<close> is an interface
  value: nil, or the address of the router it points to. \<^verbatim>\<open>&http.Server{}\<close> is the
  zero value, where a zero timeout means the transport's default.
\<close>

record http_Server =
  Addr :: string
  Handler :: "nat option"
  http_WriteTimeout :: go_int
  http_ReadTimeout :: go_int
  http_ReadHeaderTimeout :: go_int

definition http_Server_zero :: http_Server where
  "http_Server_zero =
     \<lparr>Addr = [], Handler = None, http_WriteTimeout = 0, http_ReadTimeout = 0,
      http_ReadHeaderTimeout = 0\<rparr>"

text \<open>
  \<^verbatim>\<open>Server\<close>: the router and the manager are held by pointer, here their addresses.
  No field is assigned after \<^verbatim>\<open>New\<close>.
\<close>

record Server =
  config :: Config
  http :: http_Server
  router :: nat
  manager :: nat

definition New :: "Config \<Rightarrow> nat \<Rightarrow> nat \<Rightarrow> Server \<times> error option" where
  "New cfg m r =
     (let h0 = http_Server_zero;
          h1 = h0\<lparr>Addr := ListenAddress cfg\<rparr>;
          h2 = (if WriteTimeout cfg \<noteq> 0 then h1\<lparr>http_WriteTimeout := WriteTimeout cfg\<rparr> else h1);
          h3 = (if ReadTimeout cfg \<noteq> 0 then h2\<lparr>http_ReadTimeout := ReadTimeout cfg\<rparr> else h2);
          h4 = (if ReadHeaderTimeout cfg \<noteq> 0
                then h3\<lparr>http_ReadHeaderTimeout := ReadHeaderTimeout cfg\<rparr> else h3);
          h5 = h4\<lparr>Handler := Some r\<rparr>
      in (\<lparr>config = cfg, http = h5, router = r, manager = m\<rparr>, None))"

text \<open>
  The transport and the manager are collaborators outside this package; their behaviour is
  a parameter. Each acts on a state \<open>'x\<close> of its own and answers with an error or nil;
  \<open>None\<close> is a call that never returns (\<^verbatim>\<open>ListenAndServe\<close> blocks while it serves).
\<close>

datatype Context = Background | WithDeadline int

record 'x collaborators =
  ListenAndServe :: "http_Server \<Rightarrow> 'x \<Rightarrow> (error option \<times> 'x) option"
  Shutdown :: "http_Server \<Rightarrow> Context \<Rightarrow> 'x \<Rightarrow> (error option \<times> 'x) option"
  manager_Close :: "nat \<Rightarrow> 'x \<Rightarrow> (error option \<times> 'x) option"

definition Start :: "'x collaborators \<Rightarrow> Server \<Rightarrow> 'x \<Rightarrow> (error option \<times> 'x) option" where
  "Start c s x =
     (case ListenAndServe c (http s) x of
        None \<Rightarrow> None
      | Some (err, x1) \<Rightarrow>
          if err \<noteq> Some ErrServerClosed
          then Some (fmt_Errorf_w ''server: error starting http: '' err, x1)
          else Some (None, x1))"

text \<open>
  \<^verbatim>\<open>Close\<close>: the result of \<^verbatim>\<open>s.http.Shutdown(ctx)\<close> is an expression statement,
  its value dropped; the function returns what \<^verbatim>\<open>s.manager.Close()\<close> returns.
\<close>

definition Close :: "'x collaborators \<Rightarrow> Server \<Rightarrow> Context \<Rightarrow> 'x \<Rightarrow> (error option \<times> 'x) option" where
  "Close c s ctx x =
     (case Shutdown c (http s) ctx x of
        None \<Rightarrow> None
      | Some (err1, x1) \<Rightarrow> manager_Close c (manager s) x1)"

definition Router :: "Server \<Rightarrow> nat" where
  "Router s = router s"

definition Manager :: "Server \<Rightarrow> nat" where
  "Manager s = manager s"

subsection \<open>Registering handlers\<close>

text \<open>
  The router is a collaborator too (\<^verbatim>\<open>httprouter\<close>). Of its contract,
  \<^verbatim>\<open>register(method, path, handler)\<close>, the model keeps what was registered, in order,
  under the router's address; the router's own checks of a path are outside it.
  Registration happens in a system made of the world and the routers.
\<close>

type_synonym route = "string \<times> string \<times> Handler"

record system =
  wld :: world
  routers :: "nat \<Rightarrow> route list"

definition router_Handle :: "nat \<Rightarrow> string \<Rightarrow> string \<Rightarrow> Handler \<Rightarrow> system \<Rightarrow> system" where
  "router_Handle r method path h st =
     st\<lparr>routers := (routers st)(r := routers st r @ [(method, path, h)])\<rparr>"

type_synonym ServerHandler = "Server \<Rightarrow> Handler"

definition AddHandler :: "Server \<Rightarrow> string \<Rightarrow> string \<Rightarrow> Handler \<Rightarrow> system \<Rightarrow> system" where
  "AddHandler s method path handler st =
     (let st1 = st\<lparr>wld := Log (String_field ''method'' method
                              (String_field ''path'' path
                                (log_Info ''adding handler''))) (wld st)\<rparr>;
          handler = (if Username (config s) \<noteq> [] \<and> Password (config s) \<noteq> []
                     then basicAuth handler (Username (config s)) (Password (config s))
                     else handler)
      in router_Handle (router s) method path (logger (recovery handler)) st1)"

definition AddServerHandler ::
  "Server \<Rightarrow> string \<Rightarrow> string \<Rightarrow> ServerHandler \<Rightarrow> system \<Rightarrow> system" where
  "AddServerHandler s method path handler st =
     (let st1 = st\<lparr>wld := Log (String_field ''method'' method
                              (String_field ''path'' path
                                (log_Info ''adding handler''))) (wld st)\<rparr>;
          h = (case Username (config s) \<noteq> [] \<and> Password (config s) \<noteq> [] of
                 True \<Rightarrow> basicAuth (handler s) (Username (config s)) (Password (config s))
               | False \<Rightarrow> handler s)
      in router_Handle (router s) method path (logger (recovery h)) st1)"

subsection \<open>Sample handlers, requests and worlds\<close>

text \<open>A handler that writes two bytes to its response writer and returns.\<close>

definition okHandler :: Handler where
  "okHandler w r p s = (Returned, snd (Write w (Bytes ''ok'') s))"

text \<open>A handler that panics with a string, and one that panics with an error value.\<close>

definition boomHandler :: Handler where
  "boomHandler w r p s = (Panicked (Str ''x''), s)"

definition errHandler :: Handler where
  "errHandler w r p s = (Panicked (Err ''x''), s)"

text \<open>
  A handler that panics with a runtime error of string kind, and one that panics with a
  channel.
\<close>

definition nilDerefHandler :: Handler where
  "nilDerefHandler w r p s =
     (Panicked (RuntimeErr ''invalid memory address or nil pointer dereference''), s)"

definition chanHandler :: Handler where
  "chanHandler w r p s = (Panicked (Unencodable ''%!s(chan int=0xc00001c0c0)''), s)"

text \<open>
  A handler that takes two and a half milliseconds, answers 403 and writes twice.
\<close>

definition slowHandler :: Handler where
  "slowHandler w r p s =
     (let s1 = s\<lparr>clock := clock s + 2500000\<rparr>;
          s2 = WriteHeader w 403 s1;
          s3 = snd (Write w (Bytes ''hello'') s2);
          s4 = snd (Write w (Bytes ''goodbye'') s3)
      in (Returned, s4))"

definition world0 :: world where
  "world0 =
     \<lparr>logs = [], clock = 0, goroutine = ''7'', frames = ''server.recovery.func1()'',
      sws = (\<lambda>a. \<lparr>status = 0, length_w = 0\<rparr>), sw_next = 0, sink = [],
      sink_reply = (\<lambda>k. (2, None))\<rparr>"

definition system0 :: system where
  "system0 = \<lparr>wld = world0, routers = (\<lambda>r. [])\<rparr>"

definition request0 :: request where
  "request0 =
     \<lparr>Method = ''GET'', URL = ''/v1/test'', RemoteAddr = ''10.0.0.9:4711'',
      Authorization = None\<rparr>"

definition open_config :: Config where
  "open_config =
     \<lparr>Username = [], Password = [], ListenAddress = ''0.0.0.0:8080'',
      WriteTimeout = 0, ReadTimeout = 0, ReadHeaderTimeout = 0\<rparr>"

definition auth_config :: Config where
  "auth_config =
     \<lparr>Username = ''admin'', Password = ''secret'', ListenAddress = ''0.0.0.0:8080'',
      WriteTimeout = 10000000000, ReadTimeout = 0, ReadHeaderTimeout = 5000000000\<rparr>"

text \<open>
  Collaborators over a state that counts the calls made to them: a transport that serves
  until it is shut down and stops cleanly, and one that cannot bind its address and whose
  shutdown runs into the deadline, both beside a manager that closes without error.
\<close>

definition clean_collab :: "nat collaborators" where
  "clean_collab =
     \<lparr>ListenAndServe = (\<lambda>h x. Some (Some ErrServerClosed, Suc x)),
      Shutdown = (\<lambda>h ctx x. Some (None, Suc x)),
      manager_Close = (\<lambda>m x. Some (None, Suc x))\<rparr>"

definition failing_collab :: "nat collaborators" where
  "failing_collab =
     \<lparr>ListenAndServe = (\<lambda>h x. Some (Some (ErrOther ''bind: address already in use''), Suc x)),
      Shutdown = (\<lambda>h ctx x. Some (Some DeadlineExceeded, Suc x)),
      manager_Close = (\<lambda>m x. Some (None, Suc x))\<rparr>"

text \<open>The chain most recently registered with a router, if any.\<close>

definition registered :: "system \<Rightarrow> nat \<Rightarrow> Handler option" where
  "registered st r = (case rev (routers st r) of [] \<Rightarrow> None | (m, p, h) # rest \<Rightarrow> Some h)"

text \<open>
  Two servers on router 2 and manager 1, with and without credentials; a request that
  carries credentials other than the configured ones; a world whose transport writes 5
  bytes at its first \<^verbatim>\<open>Write\<close> and 7 at each later one.
\<close>

definition auth_server :: Server where
  "auth_server = fst (New auth_config 1 2)"

definition open_server :: Server where
  "open_server = fst (New open_config 1 2)"

definition wrong_request :: request where
  "wrong_request = request0\<lparr>Authorization := Some (''mallory'', ''guess'')\<rparr>"

definition scripted_world :: world where
  "scripted_world = world0\<lparr>sink_reply := (\<lambda>k. if k = 0 then (5, None) else (7, None))\<rparr>"

section \<open>Properties\<close>

subsection \<open>Construction and lifecycle\<close>

text \<open>
  C9. For every config, manager and router, \<^verbatim>\<open>New\<close> returns, with a nil error, a
  server whose transport listens on the configured address; each of the three timeouts of
  the transport is the config's value where that is nonzero and the transport's zero
  value (its default) where it is zero; and the transport's handler is the server's
  router, the one passed in. The server is built with the handler bound, and no field of
  it changes afterwards, so the binding is in place whenever \<^verbatim>\<open>Start\<close> runs.
\<close>

theorem New_assembles_transport:
  "snd (New cfg m r) = None
   \<and> Addr (http (fst (New cfg m r))) = ListenAddress cfg
   \<and> http_WriteTimeout (http (fst (New cfg m r))) =
       (if WriteTimeout cfg \<noteq> 0 then WriteTimeout cfg else http_WriteTimeout http_Server_zero)
   \<and> http_ReadTimeout (http (fst (New cfg m r))) =
       (if ReadTimeout cfg \<noteq> 0 then ReadTimeout cfg else http_ReadTimeout http_Server_zero)
   \<and> http_ReadHeaderTimeout (http (fst (New cfg m r))) =
       (if ReadHeaderTimeout cfg \<noteq> 0 then ReadHeaderTimeout cfg
        else http_ReadHeaderTimeout http_Server_zero)
   \<and> Handler (http (fst (New cfg m r))) = Some (router (fst (New cfg m r)))
   \<and> router (fst (New cfg m r)) = r
   \<and> manager (fst (New cfg m r)) = m
   \<and> config (fst (New cfg m r)) = cfg"
  by (simp add: New_def Let_def)

theorem New_assembles_transport_witness:
  "Addr (http (fst (New auth_config 1 2))) = ''0.0.0.0:8080''
   \<and> http_WriteTimeout (http (fst (New auth_config 1 2))) = 10000000000
   \<and> http_ReadTimeout (http (fst (New auth_config 1 2))) = 0
   \<and> http_ReadHeaderTimeout (http (fst (New auth_config 1 2))) = 5000000000
   \<and> Handler (http (fst (New auth_config 1 2))) = Some 2"
  using New_assembles_transport [of auth_config 1 2]
  by (simp add: auth_config_def http_Server_zero_def)

text \<open>
  C7. When the transport's serve loop ends, \<^verbatim>\<open>Start\<close> returns: nil if the loop ended
  with \<^verbatim>\<open>http.ErrServerClosed\<close>, and a non-nil error for every other value the loop
  ended with.
\<close>

theorem Start_reports_serve_error:
  "ListenAndServe c (http s) x = Some (err, x1) \<Longrightarrow>
     (err = Some ErrServerClosed \<longrightarrow> Start c s x = Some (None, x1)) \<and>
     (err \<noteq> Some ErrServerClosed \<longrightarrow> (\<exists>e. Start c s x = Some (Some e, x1)))"
  by (simp add: Start_def fmt_Errorf_w_def)

theorem Start_reports_serve_error_witness:
  "ListenAndServe clean_collab (http (fst (New open_config 1 2))) 0
     = Some (Some ErrServerClosed, 1)
   \<and> Start clean_collab (fst (New open_config 1 2)) 0 = Some (None, 1)
   \<and> ListenAndServe failing_collab (http (fst (New open_config 1 2))) 0
     = Some (Some (ErrOther ''bind: address already in use''), 1)
   \<and> (\<exists>e. Start failing_collab (fst (New open_config 1 2)) 0 = Some (Some e, 1))"
proof -
  have clean: "ListenAndServe clean_collab (http (fst (New open_config 1 2))) 0
                 = Some (Some ErrServerClosed, 1)"
    by (simp add: clean_collab_def)
  have failing: "ListenAndServe failing_collab (http (fst (New open_config 1 2))) 0
                   = Some (Some (ErrOther ''bind: address already in use''), 1)"
    by (simp add: failing_collab_def)
  show ?thesis
    using Start_reports_serve_error [OF clean] Start_reports_serve_error [OF failing]
      clean failing
    by simp
qed

subsection \<open>Registration\<close>

text \<open>
  C10. For every server, method, path and server-aware handler factory \<open>f\<close>,
  \<^verbatim>\<open>AddServerHandler(method, path, f)\<close> leaves the system exactly as
  \<^verbatim>\<open>AddHandler(method, path, f(s))\<close> does: the same log entry and the same chain
  registered with the router.
\<close>

theorem AddServerHandler_is_AddHandler:
  "AddServerHandler s method path f st = AddHandler s method path (f s) st"
  by (simp add: AddServerHandler_def AddHandler_def)

subsection \<open>Evaluation and basic facts\<close>

lemmas run_defs =
  logger_def recovery_def recovery_deferred_def basicAuth_def r_BasicAuth_def
  new_statusWriter_def statusWriter_writer_def sw_Write_def sw_WriteHeader_def
  transport_writer_def http_Error_def http_StatusText_def StatusUnauthorized_def
  StatusInternalServerError_def Log_def api_request_entry_def Int_field_def String_field_def
  log_Info_def log_Error_def debug_Stack_def json_Marshal_def time_Now_def time_Since_def
  Let_def split_def

lemma Milliseconds_zero: "Milliseconds 0 = 0"
  by (simp add: Milliseconds_def signed_divide_int_def)

lemma Milliseconds_nonneg: "0 \<le> d \<Longrightarrow> 0 \<le> Milliseconds d"
  by (simp add: Milliseconds_def signed_divide_int_def sgn_if)

lemma recovery_returns: "fst (recovery h w r p s) = Returned"
  by (simp add: recovery_def split_def Let_def)

lemma recovery_of_return:
  "h w r p s = (Returned, s1) \<Longrightarrow> recovery h w r p s = (Returned, s1)"
  by (simp add: recovery_def recovery_deferred_def)

lemma logger_passes_panic:
  "h (statusWriter_writer (sw_next s) w) r p (snd (new_statusWriter s)) = (Panicked v, s1)
   \<Longrightarrow> logger h w r p s = (Panicked v, s1)"
  by (simp add: logger_def new_statusWriter_def Let_def)

lemma basicAuth_without_credentials:
  "Authorization r = None \<Longrightarrow>
   basicAuth h user password w r ps s =
     (Returned, http_Error w ''Unauthorized'' 401 s)"
  by (simp add: basicAuth_def r_BasicAuth_def http_StatusText_def StatusUnauthorized_def)

lemma basicAuth_with_credentials:
  "Authorization r = Some (u, pw) \<Longrightarrow> basicAuth h user password w r ps s = h w r ps s"
  by (simp add: basicAuth_def r_BasicAuth_def)

lemma sw_WriteHeader_sws:
  "\<forall>c t. sws (WriteHeader w c t) = sws t \<Longrightarrow>
   sws (sw_WriteHeader a w code s) = (sws s)(a := (sws s a)\<lparr>status := code\<rparr>)"
  by (simp add: sw_WriteHeader_def)

lemma sw_Write_result:
  "status (sws s a) \<noteq> 0 \<Longrightarrow> fst (sw_Write a w b s) = fst (Write w b s)"
  by (simp add: sw_Write_def Let_def split_def)

lemma sw_Write_sws:
  "\<forall>b t. sws (snd (Write w b t)) = sws t \<Longrightarrow>
   sws (snd (sw_Write a w b s)) a =
     \<lparr>status = (if status (sws s a) = 0 then 200 else status (sws s a)),
      length_w = length_w (sws s a) + fst (fst (sw_Write a w b s))\<rparr>"
  by (simp add: sw_Write_def Let_def split_def)

lemma transport_writer_keeps_sws:
  "\<forall>b t. sws (snd (Write transport_writer b t)) = sws t"
  "\<forall>c t. sws (WriteHeader transport_writer c t) = sws t"
  by (simp_all add: transport_writer_def)

lemma registered_AddHandler:
  "registered (AddHandler s method path h st) (router s) =
     Some (logger (recovery
       (if Username (config s) \<noteq> [] \<and> Password (config s) \<noteq> []
        then basicAuth h (Username (config s)) (Password (config s)) else h)))"
  by (simp add: registered_def AddHandler_def router_Handle_def Let_def)

lemma auth_server_fields:
  "router auth_server = 2" "Username (config auth_server) = ''admin''"
  "Password (config auth_server) = ''secret''"
  by (simp_all add: auth_server_def New_def auth_config_def Let_def)

lemma open_server_fields:
  "router open_server = 2" "Username (config open_server) = []"
  "Password (config open_server) = []"
  by (simp_all add: open_server_def New_def open_config_def Let_def)

subsection \<open>Shutdown\<close>

text \<open>
  C4. \<^verbatim>\<open>Close\<close> on a transport whose graceful shutdown runs into the deadline and a
  manager that closes without error: the shutdown's error is
  \<^verbatim>\<open>context.DeadlineExceeded\<close>, both steps run, in that order, and \<^verbatim>\<open>Close\<close>
  returns nil. The first error met is not reported.
\<close>

theorem Close_drops_shutdown_error:
  "Shutdown failing_collab (http open_server) (WithDeadline 30) 0
     = Some (Some DeadlineExceeded, 1)
   \<and> manager_Close failing_collab (manager open_server) 1 = Some (None, 2)
   \<and> Close failing_collab open_server (WithDeadline 30) 0 = Some (None, 2)"
  by (simp add: Close_def failing_collab_def)

subsection \<open>The status writer\<close>

text \<open>
  C6. Over an underlying writer that leaves the status writer's own fields alone: a
  \<^verbatim>\<open>Write\<close> on a status writer that has recorded no status yet records 200; and on a
  fresh status writer, \<^verbatim>\<open>WriteHeader(403)\<close> followed by two \<^verbatim>\<open>Write\<close> calls at
  which the underlying writer reports 5 and 7 bytes leaves the status 403 and the byte
  count 12.
\<close>

theorem statusWriter_records:
  assumes frame_Write: "\<forall>b t. sws (snd (Write w b t)) = sws t"
      and frame_WriteHeader: "\<forall>c t. sws (WriteHeader w c t) = sws t"
  shows "(status (sws s a) = 0 \<longrightarrow> status (sws (snd (sw_Write a w b s)) a) = 200) \<and>
         (sws s a = \<lparr>status = 0, length_w = 0\<rparr> \<and>
          fst (fst (Write w b1 (sw_WriteHeader a w 403 s))) = 5 \<and>
          fst (fst (Write w b2 (snd (sw_Write a w b1 (sw_WriteHeader a w 403 s))))) = 7
          \<longrightarrow> status (sws (snd (sw_Write a w b2
                   (snd (sw_Write a w b1 (sw_WriteHeader a w 403 s))))) a) = 403
            \<and> length_w (sws (snd (sw_Write a w b2
                   (snd (sw_Write a w b1 (sw_WriteHeader a w 403 s))))) a) = 12)"
proof (intro conjI impI)
  assume "status (sws s a) = 0"
  then show "status (sws (snd (sw_Write a w b s)) a) = 200"
    by (simp add: sw_Write_sws [OF frame_Write])
next
  define s1 where "s1 = sw_WriteHeader a w 403 s"
  define s2 where "s2 = snd (sw_Write a w b1 s1)"
  define s3 where "s3 = snd (sw_Write a w b2 s2)"
  assume hyp: "sws s a = \<lparr>status = 0, length_w = 0\<rparr> \<and>
          fst (fst (Write w b1 (sw_WriteHeader a w 403 s))) = 5 \<and>
          fst (fst (Write w b2 (snd (sw_Write a w b1 (sw_WriteHeader a w 403 s))))) = 7"
  have c1: "sws s1 a = \<lparr>status = 403, length_w = 0\<rparr>"
    using hyp by (simp add: s1_def sw_WriteHeader_sws [OF frame_WriteHeader])
  have n1: "fst (fst (sw_Write a w b1 s1)) = 5"
    using hyp c1 by (simp add: sw_Write_result s1_def)
  have c2: "sws s2 a = \<lparr>status = 403, length_w = 5\<rparr>"
    using c1 n1 by (simp add: s2_def sw_Write_sws [OF frame_Write])
  have n2: "fst (fst (sw_Write a w b2 s2)) = 7"
    using hyp c2 by (simp add: sw_Write_result s2_def s1_def)
  have c3: "sws s3 a = \<lparr>status = 403, length_w = 12\<rparr>"
    using c2 n2 by (simp add: s3_def sw_Write_sws [OF frame_Write])
  show "status (sws (snd (sw_Write a w b2
          (snd (sw_Write a w b1 (sw_WriteHeader a w 403 s))))) a) = 403"
    using c3 by (simp add: s3_def s2_def s1_def)
  show "length_w (sws (snd (sw_Write a w b2
          (snd (sw_Write a w b1 (sw_WriteHeader a w 403 s))))) a) = 12"
    using c3 by (simp add: s3_def s2_def s1_def)
qed

theorem statusWriter_records_witness:
  "status (sws scripted_world 0) = 0
   \<and> status (sws (snd (sw_Write 0 transport_writer (Bytes ''hello'') scripted_world)) 0) = 200
   \<and> sws scripted_world 0 = \<lparr>status = 0, length_w = 0\<rparr>
   \<and> fst (fst (Write transport_writer (Bytes ''hello'')
                 (sw_WriteHeader 0 transport_writer 403 scripted_world))) = 5
   \<and> fst (fst (Write transport_writer (Bytes ''goodbye'')
                 (snd (sw_Write 0 transport_writer (Bytes ''hello'')
                        (sw_WriteHeader 0 transport_writer 403 scripted_world))))) = 7
   \<and> status (sws (snd (sw_Write 0 transport_writer (Bytes ''goodbye'')
                 (snd (sw_Write 0 transport_writer (Bytes ''hello'')
                        (sw_WriteHeader 0 transport_writer 403 scripted_world))))) 0) = 403
   \<and> length_w (sws (snd (sw_Write 0 transport_writer (Bytes ''goodbye'')
                 (snd (sw_Write 0 transport_writer (Bytes ''hello'')
                        (sw_WriteHeader 0 transport_writer 403 scripted_world))))) 0) = 12"
proof -
  have h0: "sws scripted_world 0 = \<lparr>status = 0, length_w = 0\<rparr>"
    by (simp add: scripted_world_def world0_def)
  have h1: "fst (fst (Write transport_writer (Bytes ''hello'')
                       (sw_WriteHeader 0 transport_writer 403 scripted_world))) = 5"
    by (simp add: transport_writer_def sw_WriteHeader_def scripted_world_def world0_def)
  have h2: "fst (fst (Write transport_writer (Bytes ''goodbye'')
                       (snd (sw_Write 0 transport_writer (Bytes ''hello'')
                              (sw_WriteHeader 0 transport_writer 403 scripted_world))))) = 7"
    by (simp add: transport_writer_def sw_WriteHeader_def sw_Write_def scripted_world_def
        world0_def Let_def split_def)
  show ?thesis
    using statusWriter_records [OF transport_writer_keeps_sws, of scripted_world 0
        "Bytes ''hello''" "Bytes ''hello''" "Bytes ''goodbye''"] h0 h1 h2
    by simp
qed

subsection \<open>The request logger\<close>

lemma Milliseconds_of_nonneg: "0 \<le> d \<Longrightarrow> Milliseconds d = d div 1000000"
  by (simp add: Milliseconds_def signed_divide_int_def sgn_if)

lemma statusWriter_writer_WriteHeader:
  "\<forall>c t. sws (WriteHeader w c t) = sws t \<Longrightarrow>
   sws (WriteHeader (statusWriter_writer a w) code t) a = (sws t a)\<lparr>status := code\<rparr>"
  by (simp add: statusWriter_writer_def sw_WriteHeader_def)

lemma statusWriter_writer_Write:
  "\<forall>b t. sws (snd (Write w b t)) = sws t \<Longrightarrow>
   sws (snd (Write (statusWriter_writer a w) b t)) a =
     \<lparr>status = (if status (sws t a) = 0 then 200 else status (sws t a)),
      length_w = length_w (sws t a) + fst (fst (Write (statusWriter_writer a w) b t))\<rparr>"
  by (simp add: statusWriter_writer_def sw_Write_def Let_def split_def)

lemma statusWriter_writer_count:
  "fst (Write (statusWriter_writer a w) b t) =
     fst (Write w b
       (if status (sws t a) = 0
        then t\<lparr>sws := (sws t)(a := (sws t a)\<lparr>status := 200\<rparr>)\<rparr> else t))"
  by (simp add: statusWriter_writer_def sw_Write_def Let_def split_def)

text \<open>
  C5. For every request at which the handler inside \<^verbatim>\<open>logger\<close> returns (on its own
  or because \<^verbatim>\<open>recovery\<close> beneath it caught a panic), on a clock that does not run
  backwards: \<^verbatim>\<open>logger\<close> returns, and the log is the one the inner handler left with
  exactly one entry added, at info level, holding the method, the request URI, the remote
  address, the status and the byte count held by the status writer of this request when
  the handler is done, and the milliseconds that the clock has advanced since
  \<^verbatim>\<open>logger\<close> was entered, which are at least 0. That status writer is the writer the
  handler was given. It starts with status 0 and count 0 and, over an underlying writer
  that leaves its fields alone, it observes the handler's calls: a \<^verbatim>\<open>WriteHeader\<close>
  through it records the code, a \<^verbatim>\<open>Write\<close> through it records 200 if no status was
  recorded and adds the byte count that the underlying writer reports for that call.
\<close>

theorem logger_emits_one_entry:
  assumes inner:
      "h (statusWriter_writer (sw_next s) w) r p (snd (new_statusWriter s)) = (Returned, s1)"
    and mono: "clock s \<le> clock s1"
  shows "logger h w r p s =
      (Returned,
       s1\<lparr>logs := logs s1 @
          [\<lparr>level = InfoLevel, message = ''api request'',
            entry_fields =
              [(''method'', FString (Method r)),
               (''uri'', FString (URL r)),
               (''requester'', FString (RemoteAddr r)),
               (''status'', FInt (sint (status (sws s1 (sw_next s))))),
               (''content_length'', FInt (sint (length_w (sws s1 (sw_next s))))),
               (''duration_ms'', FInt ((clock s1 - clock s) div 1000000))]\<rparr>]\<rparr>)
    \<and> 0 \<le> (clock s1 - clock s) div 1000000
    \<and> sws (snd (new_statusWriter s)) (sw_next s) = \<lparr>status = 0, length_w = 0\<rparr>
    \<and> ((\<forall>b t. sws (snd (Write w b t)) = sws t) \<and> (\<forall>c t. sws (WriteHeader w c t) = sws t)
        \<longrightarrow>
        (\<forall>code t. sws (WriteHeader (statusWriter_writer (sw_next s) w) code t) (sw_next s) =
                    (sws t (sw_next s))\<lparr>status := code\<rparr>)
      \<and> (\<forall>b t. sws (snd (Write (statusWriter_writer (sw_next s) w) b t)) (sw_next s) =
                 \<lparr>status = (if status (sws t (sw_next s)) = 0 then 200
                             else status (sws t (sw_next s))),
                  length_w = length_w (sws t (sw_next s)) +
                             fst (fst (Write (statusWriter_writer (sw_next s) w) b t))\<rparr>)
      \<and> (\<forall>b t. fst (Write (statusWriter_writer (sw_next s) w) b t) =
                 fst (Write w b
                   (if status (sws t (sw_next s)) = 0
                    then t\<lparr>sws := (sws t)(sw_next s := (sws t (sw_next s))\<lparr>status := 200\<rparr>)\<rparr>
                    else t))))"
proof (intro conjI impI allI)
  have elapsed: "Milliseconds (time_Since (time_Now s) s1) = (clock s1 - clock s) div 1000000"
    using mono by (simp add: Milliseconds_of_nonneg time_Since_def time_Now_def)
  have "logger h w r p s =
      (Returned,
       Log (api_request_entry r (sws s1 (sw_next s))
             (Milliseconds (time_Since (time_Now s) s1))) s1)"
    using inner by (simp add: logger_def new_statusWriter_def Let_def)
  then show "logger h w r p s =
      (Returned,
       s1\<lparr>logs := logs s1 @
          [\<lparr>level = InfoLevel, message = ''api request'',
            entry_fields =
              [(''method'', FString (Method r)),
               (''uri'', FString (URL r)),
               (''requester'', FString (RemoteAddr r)),
               (''status'', FInt (sint (status (sws s1 (sw_next s))))),
               (''content_length'', FInt (sint (length_w (sws s1 (sw_next s))))),
               (''duration_ms'', FInt ((clock s1 - clock s) div 1000000))]\<rparr>]\<rparr>)"
    by (simp add: elapsed Log_def api_request_entry_def Int_field_def String_field_def
        log_Info_def)
  show "0 \<le> (clock s1 - clock s) div 1000000"
    using mono by (simp add: pos_imp_zdiv_nonneg_iff)
  show "sws (snd (new_statusWriter s)) (sw_next s) = \<lparr>status = 0, length_w = 0\<rparr>"
    by (simp add: new_statusWriter_def)
next
  fix code t
  assume frame: "(\<forall>b t. sws (snd (Write w b t)) = sws t) \<and>
                 (\<forall>c t. sws (WriteHeader w c t) = sws t)"
  then show "sws (WriteHeader (statusWriter_writer (sw_next s) w) code t) (sw_next s) =
               (sws t (sw_next s))\<lparr>status := code\<rparr>"
    by (simp add: statusWriter_writer_WriteHeader)
next
  fix b t
  assume frame: "(\<forall>b t. sws (snd (Write w b t)) = sws t) \<and>
                 (\<forall>c t. sws (WriteHeader w c t) = sws t)"
  then show "sws (snd (Write (statusWriter_writer (sw_next s) w) b t)) (sw_next s) =
                 \<lparr>status = (if status (sws t (sw_next s)) = 0 then 200
                             else status (sws t (sw_next s))),
                  length_w = length_w (sws t (sw_next s)) +
                             fst (fst (Write (statusWriter_writer (sw_next s) w) b t))\<rparr>"
    by (simp add: statusWriter_writer_Write)
next
  fix b t
  show "fst (Write (statusWriter_writer (sw_next s) w) b t) =
                 fst (Write w b
                   (if status (sws t (sw_next s)) = 0
                    then t\<lparr>sws := (sws t)(sw_next s := (sws t (sw_next s))\<lparr>status := 200\<rparr>)\<rparr>
                    else t))"
    by (rule statusWriter_writer_count)
qed

theorem logger_emits_one_entry_witness:
  "fst (slowHandler (statusWriter_writer (sw_next scripted_world) transport_writer) request0 []
          (snd (new_statusWriter scripted_world))) = Returned
   \<and> clock scripted_world \<le> clock (snd (slowHandler
          (statusWriter_writer (sw_next scripted_world) transport_writer) request0 []
          (snd (new_statusWriter scripted_world))))
   \<and> fst (logger slowHandler transport_writer request0 [] scripted_world) = Returned
   \<and> logs (snd (logger slowHandler transport_writer request0 [] scripted_world)) =
       [\<lparr>level = InfoLevel, message = ''api request'',
         entry_fields =
           [(''method'', FString ''GET''),
            (''uri'', FString ''/v1/test''),
            (''requester'', FString ''10.0.0.9:4711''),
            (''status'', FInt 403),
            (''content_length'', FInt 12),
            (''duration_ms'', FInt 2)]\<rparr>]
   \<and> sink (snd (logger slowHandler transport_writer request0 [] scripted_world)) =
       [CallWriteHeader 403, CallWrite (Bytes ''hello''), CallWrite (Bytes ''goodbye'')]"
proof -
  define s1 where "s1 = snd (slowHandler
          (statusWriter_writer (sw_next scripted_world) transport_writer) request0 []
          (snd (new_statusWriter scripted_world)))"
  have inner: "slowHandler (statusWriter_writer (sw_next scripted_world) transport_writer)
                 request0 [] (snd (new_statusWriter scripted_world)) = (Returned, s1)"
    by (simp add: s1_def slowHandler_def Let_def)
  have next0: "sw_next scripted_world = 0" and clock0: "clock scripted_world = 0"
    by (simp_all add: scripted_world_def world0_def)
  have clock1: "clock s1 = 2500000"
    by (simp add: s1_def slowHandler_def statusWriter_writer_def sw_Write_def
        sw_WriteHeader_def transport_writer_def new_statusWriter_def scripted_world_def
        world0_def Let_def split_def)
  have logs1: "logs s1 = []"
    by (simp add: s1_def slowHandler_def statusWriter_writer_def sw_Write_def
        sw_WriteHeader_def transport_writer_def new_statusWriter_def scripted_world_def
        world0_def Let_def split_def)
  have sink1: "sink s1 =
       [CallWriteHeader 403, CallWrite (Bytes ''hello''), CallWrite (Bytes ''goodbye'')]"
    by (simp add: s1_def slowHandler_def statusWriter_writer_def sw_Write_def
        sw_WriteHeader_def transport_writer_def new_statusWriter_def scripted_world_def
        world0_def Let_def split_def)
  have cell1: "sws s1 0 = \<lparr>status = 403, length_w = 12\<rparr>"
    by (simp add: s1_def slowHandler_def statusWriter_writer_def sw_Write_def
        sw_WriteHeader_def transport_writer_def new_statusWriter_def scripted_world_def
        world0_def Let_def split_def)
  have mono: "clock scripted_world \<le> clock s1"
    by (simp add: clock0 clock1)
  have "logger slowHandler transport_writer request0 [] scripted_world =
      (Returned,
       s1\<lparr>logs := logs s1 @
          [\<lparr>level = InfoLevel, message = ''api request'',
            entry_fields =
              [(''method'', FString (Method request0)),
               (''uri'', FString (URL request0)),
               (''requester'', FString (RemoteAddr request0)),
               (''status'', FInt (sint (status (sws s1 (sw_next scripted_world))))),
               (''content_length'', FInt (sint (length_w (sws s1 (sw_next scripted_world))))),
               (''duration_ms'', FInt ((clock s1 - clock scripted_world) div 1000000))]\<rparr>]\<rparr>)"
    using logger_emits_one_entry [where h = slowHandler and s = scripted_world
        and w = transport_writer and r = request0 and p = "[]" and ?s1.0 = s1, OF inner mono]
    by (rule conjunct1)
  then show ?thesis
    using inner mono by (simp add: next0 clock0 clock1 logs1 sink1 cell1 request0_def)
qed

text \<open>
  The entry after a recovered panic: the status writer has seen the 500 and the two bytes
  that the transport reported for the error body.
\<close>

lemma logger_after_recovery:
  "fst (logger (recovery boomHandler) transport_writer request0 [] world0) = Returned
   \<and> map level (logs (snd (logger (recovery boomHandler) transport_writer request0 [] world0)))
       = [ErrorLevel, InfoLevel]
   \<and> entry_fields (last (logs (snd (logger (recovery boomHandler) transport_writer
                                        request0 [] world0)))) =
       [(''method'', FString ''GET''),
        (''uri'', FString ''/v1/test''),
        (''requester'', FString ''10.0.0.9:4711''),
        (''status'', FInt 500),
        (''content_length'', FInt 2),
        (''duration_ms'', FInt 0)]"
  by (simp add: run_defs json_members.simps Milliseconds_zero boomHandler_def world0_def request0_def)

subsection \<open>Routes without credentials\<close>

text \<open>
  C8. On a server whose configured username or password is empty, \<^verbatim>\<open>AddHandler\<close>
  and \<^verbatim>\<open>AddServerHandler\<close> register the handler under \<^verbatim>\<open>logger\<close> and
  \<^verbatim>\<open>recovery\<close> alone, with no \<^verbatim>\<open>basicAuth\<close> around it; and on every request, whatever credentials it carries or
  lacks, that chain runs the handler on the request, with the fresh status writer, and
  goes on from the world and the outcome the handler left.
\<close>

theorem no_credentials_no_basicAuth:
  assumes "Username (config s) = [] \<or> Password (config s) = []"
  shows "routers (AddHandler s method path h st) (router s) =
           routers st (router s) @ [(method, path, logger (recovery h))]
       \<and> routers (AddServerHandler s method path f st) (router s) =
           routers st (router s) @ [(method, path, logger (recovery (f s)))]
       \<and> (\<forall>w r p wd. logger (recovery h) w r p wd =
            (let (a, s0) = new_statusWriter wd;
                 sw = statusWriter_writer a w;
                 (out, s1) = h sw r p s0;
                 s2 = recovery_deferred sw out s1
             in (Returned,
                 Log (api_request_entry r (sws s2 a) (Milliseconds (time_Since (time_Now wd) s2))) s2)))"
proof (intro conjI allI)
  show "routers (AddHandler s method path h st) (router s) =
          routers st (router s) @ [(method, path, logger (recovery h))]"
    using assms by (auto simp add: AddHandler_def router_Handle_def Let_def)
  show "routers (AddServerHandler s method path f st) (router s) =
          routers st (router s) @ [(method, path, logger (recovery (f s)))]"
    using assms by (auto simp add: AddServerHandler_def router_Handle_def Let_def)
  show "logger (recovery h) w r p wd =
            (let (a, s0) = new_statusWriter wd;
                 sw = statusWriter_writer a w;
                 (out, s1) = h sw r p s0;
                 s2 = recovery_deferred sw out s1
             in (Returned,
                 Log (api_request_entry r (sws s2 a) (Milliseconds (time_Since (time_Now wd) s2))) s2))"
    for w r p wd
    by (simp add: logger_def recovery_def Let_def split_def)
qed

theorem no_credentials_no_basicAuth_witness:
  "(Username (config open_server) = [] \<or> Password (config open_server) = [])
   \<and> routers (AddHandler open_server ''GET'' ''/v1/test'' okHandler system0) 2
       = [(''GET'', ''/v1/test'', logger (recovery okHandler))]
   \<and> sink (snd (logger (recovery okHandler) transport_writer request0 [] world0))
       = [CallWrite (Bytes ''ok'')]
   \<and> sink (snd (logger (recovery okHandler) transport_writer wrong_request [] world0))
       = [CallWrite (Bytes ''ok'')]"
proof -
  have empty: "Username (config open_server) = [] \<or> Password (config open_server) = []"
    by (simp add: open_server_def New_def open_config_def Let_def)
  have r2: "router open_server = 2"
    by (simp add: open_server_def New_def Let_def)
  have none: "routers system0 2 = []"
    by (simp add: system0_def)
  note inst = no_credentials_no_basicAuth [OF empty, of "''GET''" "''/v1/test''" okHandler
      system0 "\<lambda>srv. okHandler"]
  have reg: "routers (AddHandler open_server ''GET'' ''/v1/test'' okHandler system0) 2
       = [(''GET'', ''/v1/test'', logger (recovery okHandler))]"
    using inst r2 none by simp
  have run: "sink (snd (logger (recovery okHandler) transport_writer r [] world0))
       = [CallWrite (Bytes ''ok'')]" for r
    using inst
    by (simp add: okHandler_def new_statusWriter_def statusWriter_writer_def sw_Write_def
        transport_writer_def recovery_deferred_def Log_def world0_def Let_def split_def)
  show ?thesis
    using empty reg run by simp
qed

subsection \<open>Basic authentication\<close>

text \<open>
  C1. On the server configured with the pair admin and secret, \<^verbatim>\<open>AddHandler\<close>
  registers the handler under \<^verbatim>\<open>basicAuth\<close>; a request that carries the
  credentials mallory and guess then runs the handler, whose two bytes are all the
  transport receives, where a request without credentials gets the 401 answer. The
  comparison in \<^verbatim>\<open>basicAuth\<close> is between the extracted values and themselves.
\<close>

theorem basicAuth_accepts_any_credentials:
  "registered (AddHandler auth_server ''GET'' ''/v1/test'' okHandler system0) 2
     = Some (logger (recovery (basicAuth okHandler ''admin'' ''secret'')))
   \<and> Authorization wrong_request = Some (''mallory'', ''guess'')
   \<and> sink (snd (logger (recovery (basicAuth okHandler ''admin'' ''secret''))
                  transport_writer wrong_request [] world0))
       = [CallWrite (Bytes ''ok'')]
   \<and> sink (snd (logger (recovery (basicAuth okHandler ''admin'' ''secret''))
                  transport_writer wrong_request [] world0))
       \<noteq> sink (snd (logger (recovery (basicAuth okHandler ''admin'' ''secret''))
                  transport_writer request0 [] world0))"
proof -
  have reg: "registered (AddHandler auth_server ''GET'' ''/v1/test'' okHandler system0) 2
     = Some (logger (recovery (basicAuth okHandler ''admin'' ''secret'')))"
    using registered_AddHandler [of auth_server "''GET''" "''/v1/test''" okHandler system0]
    by (simp add: auth_server_fields)
  have wrong: "sink (snd (logger (recovery (basicAuth okHandler ''admin'' ''secret''))
                  transport_writer wrong_request [] world0)) = [CallWrite (Bytes ''ok'')]"
    by (simp add: run_defs Milliseconds_zero okHandler_def wrong_request_def request0_def world0_def)
  have none: "sink (snd (logger (recovery (basicAuth okHandler ''admin'' ''secret''))
                  transport_writer request0 [] world0)) =
       [CallHeaderSet ''Content-Type'' ''text/plain; charset=utf-8'',
        CallHeaderSet ''X-Content-Type-Options'' ''nosniff'',
        CallWriteHeader 401, CallWrite (Bytes (''Unauthorized'' @ [CHR 0x0A]))]"
    by (simp add: run_defs Milliseconds_zero okHandler_def request0_def world0_def)
  show ?thesis
    using reg wrong none by (simp add: wrong_request_def)
qed

subsection \<open>The order of the middleware\<close>

text \<open>
  With no credentials configured, the chain registered for a handler that panics is not
  \<^verbatim>\<open>recovery\<close> around \<^verbatim>\<open>logger\<close> around the handler: the registered chain writes
  the request's info entry after the error entry, which that other chain never does.
\<close>

theorem recovery_is_not_outermost:
  "registered (AddHandler open_server ''GET'' ''/boom'' boomHandler system0) 2
     \<noteq> Some (recovery (logger boomHandler))"
proof
  assume "registered (AddHandler open_server ''GET'' ''/boom'' boomHandler system0) 2
            = Some (recovery (logger boomHandler))"
  then have "logger (recovery boomHandler) = recovery (logger boomHandler)"
    using registered_AddHandler [of open_server "''GET''" "''/boom''" boomHandler system0]
    by (simp add: open_server_fields)
  then have "map level (logs (snd (logger (recovery boomHandler) transport_writer request0 [] world0)))
           = map level (logs (snd (recovery (logger boomHandler) transport_writer request0 [] world0)))"
    by simp
  then show False
    by (simp add: run_defs boomHandler_def world0_def request0_def)
qed

text \<open>
  C2, with the order the code has. For every handler registered through \<^verbatim>\<open>AddHandler\<close> or
  \<^verbatim>\<open>AddServerHandler\<close>, the chain handed to the router is, from the outside in: the
  request logger, then recovery, then basic authentication (only when the configured
  username and password are both non-empty), then the business handler, which for
  \<^verbatim>\<open>AddServerHandler\<close> is the factory applied to the server.
\<close>

theorem registered_chain_order:
  "routers (AddHandler s method path h st) (router s) =
     routers st (router s) @
       [(method, path,
         logger (recovery
           (if Username (config s) \<noteq> [] \<and> Password (config s) \<noteq> []
            then basicAuth h (Username (config s)) (Password (config s))
            else h)))]
   \<and> routers (AddServerHandler s method path f st) (router s) =
     routers st (router s) @
       [(method, path,
         logger (recovery
           (if Username (config s) \<noteq> [] \<and> Password (config s) \<noteq> []
            then basicAuth (f s) (Username (config s)) (Password (config s))
            else f s)))]"
  by (simp add: AddHandler_def AddServerHandler_def router_Handle_def Let_def)

theorem registered_chain_order_witness:
  "routers (AddHandler auth_server ''GET'' ''/v1/test'' okHandler system0) 2
     = [(''GET'', ''/v1/test'', logger (recovery (basicAuth okHandler ''admin'' ''secret'')))]
   \<and> routers (AddServerHandler open_server ''GET'' ''/v1/test'' (\<lambda>srv. okHandler) system0) 2
     = [(''GET'', ''/v1/test'', logger (recovery okHandler))]"
  using registered_chain_order [of auth_server "''GET''" "''/v1/test''" okHandler system0]
        registered_chain_order [of open_server "''GET''" "''/v1/test''" _ system0 "\<lambda>srv. okHandler"]
  by (simp add: auth_server_fields open_server_fields system0_def)

subsection \<open>Recovery\<close>

lemma error_body_of_value:
  "json_of v = Some j \<Longrightarrow>
   json_Marshal [(''message'', Str ''There was an internal server error''), (''error'', v)] =
     (Marshalled (JObject [(''error'', j),
        (''message'', JString ''There was an internal server error'')]), None)"
  by (simp add: json_Marshal_def)

lemma error_body_of_unencodable:
  "json_of v = None \<Longrightarrow>
   json_Marshal [(''message'', Str ''There was an internal server error''), (''error'', v)] =
     (Bytes [], Some (ErrOther ''json: unsupported value''))"
  by (simp add: json_Marshal_def)

text \<open>
  What the wrapper does at a panic with any value but nil: it returns normally, adds one
  error entry with the \<^verbatim>\<open>%s\<close> text of the value and the stack trace, sets the content
  type, writes the status 500 and writes whatever \<^verbatim>\<open>json.Marshal\<close> gave for the map
  of the message and the raw value.
\<close>

lemma recovery_of_panic:
  assumes "h w r p s = (Panicked v, s1)" and "v \<noteq> GoNil"
  shows "recovery h w r p s =
     (Returned,
      snd (Write w
            (fst (json_Marshal [(''message'', Str ''There was an internal server error''),
                                (''error'', v)]))
            (WriteHeader w 500
              (Header_Set w ''Content-Type'' ''application/json''
                (s1\<lparr>logs := logs s1 @
                   [\<lparr>level = ErrorLevel, message = ''recovered from panic'',
                     entry_fields = [(''error'', FString (Sprintf_s v)),
                                     (''stack'', FString (debug_Stack s1))]\<rparr>]\<rparr>)))))"
  using assms
  by (simp add: recovery_def recovery_deferred_def Let_def split_def
      Log_def String_field_def log_Error_def StatusInternalServerError_def)

lemma recovery_of_nil_panic:
  "h w r p s = (Panicked GoNil, s1) \<Longrightarrow> recovery h w r p s = (Returned, s1)"
  by (simp add: recovery_def recovery_deferred_def)

lemma debug_Stack_not_empty: "debug_Stack s \<noteq> []"
  by (simp add: debug_Stack_def)

text \<open>For a string, the error member of the body is the string, which is its description.\<close>

lemma recovery_of_string_panic:
  "sink (snd (recovery boomHandler transport_writer request0 [] world0)) =
     [CallHeaderSet ''Content-Type'' ''application/json'', CallWriteHeader 500,
      CallWrite (Marshalled (JObject [(''error'', JString ''x''),
                 (''message'', JString ''There was an internal server error'')]))]
   \<and> logs (snd (recovery boomHandler transport_writer request0 [] world0)) =
       [\<lparr>level = ErrorLevel, message = ''recovered from panic'',
         entry_fields = [(''error'', FString ''x''),
                         (''stack'', FString (debug_Stack world0))]\<rparr>]"
proof -
  have run: "boomHandler transport_writer request0 [] world0 = (Panicked (Str ''x''), world0)"
    by (simp add: boomHandler_def)
  have nonnil: "Str ''x'' \<noteq> GoNil"
    by simp
  show ?thesis
    using recovery_of_panic [where h = boomHandler and w = transport_writer and r = request0
        and p = "[]" and s = world0 and v = "Str ''x''" and ?s1.0 = world0, OF run nonnil]
    by (simp add: error_body_of_value transport_writer_def world0_def)
qed

text \<open>
  C3. A handler that panics with an error value whose message is x, as
  \<^verbatim>\<open>panic(errors.New("x"))\<close> does: the recovery wrapper answers 500 with the content
  type application/json, but the body it writes has the empty object as its error member,
  not the description x of the fault, which the log entry does carry.
\<close>

theorem recovery_body_of_error_value:
  "errHandler transport_writer request0 [] world0 = (Panicked (Err ''x''), world0)
   \<and> sink (snd (recovery errHandler transport_writer request0 [] world0)) =
     [CallHeaderSet ''Content-Type'' ''application/json'', CallWriteHeader 500,
      CallWrite (Marshalled (JObject [(''error'', JObject []),
                 (''message'', JString ''There was an internal server error'')]))]
   \<and> JObject [] \<noteq> JString (Sprintf_s (Err ''x''))"
proof -
  have run: "errHandler transport_writer request0 [] world0 = (Panicked (Err ''x''), world0)"
    by (simp add: errHandler_def)
  have nonnil: "Err ''x'' \<noteq> GoNil"
    by simp
  show ?thesis
    using recovery_of_panic [where h = errHandler and w = transport_writer and r = request0
        and p = "[]" and s = world0 and v = "Err ''x''" and ?s1.0 = world0, OF run nonnil] run
    by (simp add: error_body_of_value transport_writer_def world0_def)
qed

text \<open>
  The same line of the source at two more values. A runtime error of string kind gets a
  JSON string without the prefix that its logged description has; a value without an
  encoding gets an empty body.
\<close>

lemma recovery_body_of_runtime_error:
  "sink (snd (recovery nilDerefHandler transport_writer request0 [] world0)) =
     [CallHeaderSet ''Content-Type'' ''application/json'', CallWriteHeader 500,
      CallWrite (Marshalled (JObject
        [(''error'', JString ''invalid memory address or nil pointer dereference''),
         (''message'', JString ''There was an internal server error'')]))]
   \<and> Sprintf_s (RuntimeErr ''invalid memory address or nil pointer dereference'') =
       ''runtime error: invalid memory address or nil pointer dereference''"
proof -
  have run: "nilDerefHandler transport_writer request0 [] world0 =
      (Panicked (RuntimeErr ''invalid memory address or nil pointer dereference''), world0)"
    by (simp add: nilDerefHandler_def)
  have nonnil: "RuntimeErr ''invalid memory address or nil pointer dereference'' \<noteq> GoNil"
    by simp
  show ?thesis
    using recovery_of_panic [where h = nilDerefHandler and w = transport_writer
        and r = request0 and p = "[]" and s = world0
        and v = "RuntimeErr ''invalid memory address or nil pointer dereference''"
        and ?s1.0 = world0, OF run nonnil]
    by (simp add: error_body_of_value transport_writer_def world0_def)
qed

lemma recovery_body_of_unencodable:
  "sink (snd (recovery chanHandler transport_writer request0 [] world0)) =
     [CallHeaderSet ''Content-Type'' ''application/json'', CallWriteHeader 500,
      CallWrite (Bytes [])]"
proof -
  have run: "chanHandler transport_writer request0 [] world0 =
      (Panicked (Unencodable ''%!s(chan int=0xc00001c0c0)''), world0)"
    by (simp add: chanHandler_def)
  have nonnil: "Unencodable ''%!s(chan int=0xc00001c0c0)'' \<noteq> GoNil"
    by simp
  show ?thesis
    using recovery_of_panic [where h = chanHandler and w = transport_writer
        and r = request0 and p = "[]" and s = world0
        and v = "Unencodable ''%!s(chan int=0xc00001c0c0)''"
        and ?s1.0 = world0, OF run nonnil]
    by (simp add: error_body_of_unencodable transport_writer_def world0_def)
qed

end
